theory Spec2Isabelle
  imports Main
begin

section \<open>Date extraction from filenames: the model\<close>

text \<open>
  A shallow embedding of \<^verbatim>\<open>extract_dates_from_csv.py\<close>. A Python \<^verbatim>\<open>str\<close> is a
  \<^typ>\<open>string\<close>; each \<^typ>\<open>char\<close> is read as a code point below 256, so the model
  covers the texts whose characters lie in that range. Python integers are \<^typ>\<open>int\<close>.
  An exception that the source catches is a branch of the model that returns what the
  \<^verbatim>\<open>except\<close> clause returns.
\<close>

subsection \<open>Characters and strings\<close>

text \<open>The characters the regular expression class \<^verbatim>\<open>\d\<close> matches: \<^verbatim>\<open>0\<close> to \<^verbatim>\<open>9\<close>.\<close>

definition is_digit :: "char \<Rightarrow> bool" where
  "is_digit c = (48 \<le> (of_char c :: nat) \<and> (of_char c :: nat) \<le> 57)"

text \<open>
  \<^verbatim>\<open>str.isdigit\<close>: the string is not empty and each character is a digit. Below 256
  Python counts the superscripts two, three and one (178, 179, 185) as digits too.
\<close>

definition isdigit_char :: "char \<Rightarrow> bool" where
  "isdigit_char c = (is_digit c \<or> (of_char c :: nat) = 178 \<or> (of_char c :: nat) = 179
     \<or> (of_char c :: nat) = 185)"

definition str_isdigit :: "string \<Rightarrow> bool" where
  "str_isdigit s = (s \<noteq> [] \<and> list_all isdigit_char s)"

text \<open>The characters \<^verbatim>\<open>str.strip\<close> removes, below 256.\<close>

definition is_space :: "char \<Rightarrow> bool" where
  "is_space c = (let n = (of_char c :: nat) in
     (9 \<le> n \<and> n \<le> 13) \<or> (28 \<le> n \<and> n \<le> 32) \<or> n = 133 \<or> n = 160)"

definition strip :: "string \<Rightarrow> string" where
  "strip s = rev (dropWhile is_space (rev (dropWhile is_space s)))"

text \<open>\<^verbatim>\<open>s.split(d)\<close> for a separator of one character.\<close>

fun split_acc :: "char \<Rightarrow> string \<Rightarrow> string \<Rightarrow> string list" where
  "split_acc d acc [] = [rev acc]"
| "split_acc d acc (c # cs) =
     (if c = d then rev acc # split_acc d [] cs else split_acc d (c # acc) cs)"

definition split_str :: "char \<Rightarrow> string \<Rightarrow> string list" where
  "split_str d s = split_acc d [] s"

text \<open>
  \<^verbatim>\<open>int(s)\<close> on the strings the program passes, which are captures of \<^verbatim>\<open>\d\<close> runs:
  the decimal value, and \<^verbatim>\<open>ValueError\<close> (here \<open>None\<close>) for the empty string or a
  character that is not a decimal digit.
\<close>

definition digit_val :: "char \<Rightarrow> int" where
  "digit_val c = int (of_char c) - 48"

definition py_int :: "string \<Rightarrow> int option" where
  "py_int s = (if s \<noteq> [] \<and> list_all is_digit s
     then Some (foldl (\<lambda>a c. 10 * a + digit_val c) 0 s) else None)"

text \<open>Decimal output, and \<^verbatim>\<open>f"{n:0wd}"\<close>: zero padding to width \<open>w\<close>, sign included.\<close>

fun dec :: "nat \<Rightarrow> string" where
  "dec n = (if n < 10 then [char_of (48 + n)] else dec (n div 10) @ [char_of (48 + n mod 10)])"

definition zfill :: "nat \<Rightarrow> string \<Rightarrow> string" where
  "zfill w s = replicate (w - length s) (CHR ''0'') @ s"

definition fmt0 :: "nat \<Rightarrow> int \<Rightarrow> string" where
  "fmt0 w i = (if i < 0 then CHR ''-'' # zfill (w - 1) (dec (nat (- i))) else zfill w (dec (nat i)))"

subsection \<open>Regular expressions of the program\<close>

text \<open>
  Every pattern of the program is a sequence of greedy digit runs \<^verbatim>\<open>\d{lo,hi}\<close> and of
  single characters taken from a class. \<open>rx_run\<close> matches such a sequence at the start of
  a string the way a backtracking matcher does: a run takes as many digits as it can and
  gives them back one by one while the rest of the pattern fails. It returns the text
  of each digit run and the unmatched rest; \<open>anchored\<close> asks that nothing is left
  (\<^verbatim>\<open>re.fullmatch\<close>).
\<close>

datatype rx_item = Digits nat nat | OneOf "char list"

fun first_some :: "(nat \<Rightarrow> 'a option) \<Rightarrow> nat list \<Rightarrow> 'a option" where
  "first_some f [] = None"
| "first_some f (k # ks) = (case f k of Some r \<Rightarrow> Some r | None \<Rightarrow> first_some f ks)"

definition run_lengths :: "nat \<Rightarrow> nat \<Rightarrow> string \<Rightarrow> nat list" where
  "run_lengths lo hi s = rev [lo ..< Suc (min hi (length (takeWhile is_digit s)))]"

primrec rx_run :: "bool \<Rightarrow> rx_item list \<Rightarrow> string \<Rightarrow> (string list \<times> string) option" where
  "rx_run anchored [] s = (if anchored \<and> s \<noteq> [] then None else Some ([], s))"
| "rx_run anchored (it # its) s =
     (case it of
        OneOf cs \<Rightarrow>
          (case s of
             [] \<Rightarrow> None
           | c # r \<Rightarrow> if c \<in> set cs then rx_run anchored its r else None)
      | Digits lo hi \<Rightarrow>
          first_some
            (\<lambda>k. case rx_run anchored its (drop k s) of
                   None \<Rightarrow> None
                 | Some (gs, r) \<Rightarrow> Some (take k s # gs, r))
            (run_lengths lo hi s))"

definition fullmatch :: "rx_item list \<Rightarrow> string \<Rightarrow> string list option" where
  "fullmatch p s = map_option fst (rx_run True p s)"

text \<open>The match of \<open>p\<close> at the start of \<open>s\<close>, if there is one: its length and its groups.\<close>

definition match_at :: "rx_item list \<Rightarrow> string \<Rightarrow> (nat \<times> string list) option" where
  "match_at p s = map_option (\<lambda>(gs, r). (length s - length r, gs)) (rx_run False p s)"

text \<open>
  \<^verbatim>\<open>re.finditer\<close>: the matches left to right and without overlap, each with its span
  \<open>(start, end)\<close> and its groups; \<open>pos\<close> is the index of the first character of \<open>s\<close> in
  the whole text. No pattern of the program matches the empty string, so a match of
  length 0 does not occur.
\<close>

type_synonym rx_match = "nat \<times> nat \<times> string list"

fun finditer_from :: "rx_item list \<Rightarrow> nat \<Rightarrow> string \<Rightarrow> rx_match list" where
  "finditer_from p pos [] = []"
| "finditer_from p pos (c # cs) =
     (case match_at p (c # cs) of
        None \<Rightarrow> finditer_from p (Suc pos) cs
      | Some (k, gs) \<Rightarrow>
          if k = 0 then finditer_from p (Suc pos) cs
          else (pos, pos + k, gs) # finditer_from p (pos + k) (drop k (c # cs)))"

definition finditer :: "rx_item list \<Rightarrow> string \<Rightarrow> rx_match list" where
  "finditer p s = finditer_from p 0 s"

definition search :: "rx_item list \<Rightarrow> string \<Rightarrow> bool" where
  "search p s = (finditer p s \<noteq> [])"

subsection \<open>Plausible years and century expansion\<close>

definition plausible_year :: "int \<Rightarrow> bool" where
  "plausible_year y = (1980 \<le> y \<and> y \<le> 2039)"

text \<open>
  The loop \<^verbatim>\<open>for century in [1900, 2000]\<close> that the program runs on a year below 100:
  the first offset that gives a plausible year is added and the loop stops. The result
  is the year after the loop and whether an offset was found.
\<close>

definition century_loop :: "int \<Rightarrow> int \<times> bool" where
  "century_loop yy =
     (case find (\<lambda>century. plausible_year (yy + century)) [1900, 2000] of
        Some century \<Rightarrow> (yy + century, True)
      | None \<Rightarrow> (yy, False))"

subsection \<open>The group locator\<close>

text \<open>\<^verbatim>\<open>DELIM_LIST\<close>: hyphen, underscore, slash, backslash, period.\<close>

definition DELIM_LIST :: "char list" where
  "DELIM_LIST = [CHR ''-'', CHR ''_'', CHR ''/'', CHR 0x5C, CHR ''.'']"

text \<open>The four patterns built for a delimiter, each with its number of fields.\<close>

definition patterns :: "char \<Rightarrow> (nat \<times> rx_item list) list" where
  "patterns delim =
     [(3, [Digits 1 2, OneOf [delim], Digits 1 2, OneOf [delim], Digits 2 4]),
      (3, [Digits 2 4, OneOf [delim], Digits 1 2, OneOf [delim], Digits 1 2]),
      (2, [Digits 1 2, OneOf [delim], Digits 2 4]),
      (2, [Digits 2 4, OneOf [delim], Digits 1 2])]"

text \<open>
  The test of a candidate of three fields: month, day, year first, then year, month,
  day when the first reading fails. A failing \<^verbatim>\<open>int\<close> is the \<^verbatim>\<open>except\<close> branch.
\<close>

definition ok_mdy :: "string list \<Rightarrow> bool" where
  "ok_mdy split_groups =
     (case map strip split_groups of
        [g1, g2, g3] \<Rightarrow>
          (case (py_int g1, py_int g2, py_int g3) of
             (Some mm, Some dd, Some yy) \<Rightarrow>
               (let (yy', ok) = (if yy < 100 then century_loop yy else (yy, True))
                in if \<not> (1 \<le> mm \<and> mm \<le> 12 \<and> 1 \<le> dd \<and> dd \<le> 31 \<and> plausible_year yy')
                   then False else ok)
           | _ \<Rightarrow> False)
      | _ \<Rightarrow> False)"

definition ok_ymd :: "string list \<Rightarrow> bool" where
  "ok_ymd split_groups =
     (case map strip split_groups of
        [g1, g2, g3] \<Rightarrow>
          (case (py_int g1, py_int g2, py_int g3) of
             (Some yy, Some mm, Some dd) \<Rightarrow>
               (let (yy', ok) = (if yy < 100 then century_loop yy else (yy, True))
                in 1 \<le> mm \<and> mm \<le> 12 \<and> 1 \<le> dd \<and> dd \<le> 31 \<and> plausible_year yy')
           | _ \<Rightarrow> False)
      | _ \<Rightarrow> False)"

definition ok3 :: "string list \<Rightarrow> bool" where
  "ok3 split_groups = (if ok_mdy split_groups then True else ok_ymd split_groups)"

text \<open>The test of a candidate of two fields: month and year, else year and month.\<close>

definition month_year_ok :: "string \<Rightarrow> string \<Rightarrow> (int \<times> int) option" where
  "month_year_ok gm gy =
     (case (py_int gm, py_int gy) of
        (Some mm, Some yy) \<Rightarrow>
          (let yy' = (if yy < 100 then fst (century_loop yy) else yy)
           in if 1 \<le> mm \<and> mm \<le> 12 \<and> plausible_year yy' then Some (yy', mm) else None)
      | _ \<Rightarrow> None)"

definition two_fields :: "string \<Rightarrow> string \<Rightarrow> (int \<times> int) option" where
  "two_fields g1 g2 =
     (let mm_first = (1 \<le> length g1 \<and> length g1 \<le> 2 \<and> str_isdigit g1);
          yy_first = ((length g1 = 2 \<or> length g1 = 4) \<and> str_isdigit g1);
          mm_second = (1 \<le> length g2 \<and> length g2 \<le> 2 \<and> str_isdigit g2);
          yy_second = ((length g2 = 2 \<or> length g2 = 4) \<and> str_isdigit g2)
      in if mm_first \<and> yy_second then month_year_ok g1 g2
         else if yy_first \<and> mm_second then month_year_ok g2 g1
         else None)"

definition ok2 :: "string list \<Rightarrow> bool" where
  "ok2 split_groups =
     (case map strip split_groups of
        [g1, g2] \<Rightarrow> two_fields g1 g2 \<noteq> None
      | _ \<Rightarrow> False)"

text \<open>
  The body of the loop over the matches: the span \<open>(start_idx, end_idx)\<close> of a match
  \<open>m\<close> in the reversed text gives the candidate, or nothing when a test fails.
\<close>

definition candidate :: "char \<Rightarrow> nat \<Rightarrow> string \<Rightarrow> rx_match \<Rightarrow> string option" where
  "candidate delim n_groups rev_text m =
     (let start_idx = fst m; end_idx = fst (snd m);
          rev_candidate = take (end_idx - start_idx) (drop start_idx rev_text);
          before_s = (if start_idx > 0 then [rev_text ! (start_idx - 1)] else []);
          after_s = (if end_idx < length rev_text then [rev_text ! end_idx] else [])
      in if (start_idx = 0 \<or> \<not> str_isdigit before_s)
            \<and> (end_idx = length rev_text \<or> \<not> str_isdigit after_s)
         then
           (let orig_candidate = rev rev_candidate;
                split_groups = filter (\<lambda>g. g \<noteq> []) (split_str delim orig_candidate)
            in if length split_groups = n_groups \<and> CHR '' '' \<notin> set orig_candidate
               then
                 (let ok = (if n_groups = 3 then ok3 split_groups
                            else if n_groups = 2 then ok2 split_groups else True)
                  in if ok
                     then
                       (let other_delims = filter (\<lambda>d. d \<noteq> delim) DELIM_LIST;
                            found_other = list_ex (\<lambda>d. d \<in> set orig_candidate) other_delims
                        in if \<not> found_other then Some orig_candidate else None)
                     else None)
               else None)
         else None)"

text \<open>The first match of a pattern, in the order of \<^verbatim>\<open>re.finditer\<close>, that passes.\<close>

fun first_candidate :: "char \<Rightarrow> nat \<Rightarrow> string \<Rightarrow> rx_match list \<Rightarrow> string option" where
  "first_candidate delim n_groups rev_text [] = None"
| "first_candidate delim n_groups rev_text (m # ms) =
     (case candidate delim n_groups rev_text m of
        Some g \<Rightarrow> Some g
      | None \<Rightarrow> first_candidate delim n_groups rev_text ms)"

fun scan_patterns :: "char \<Rightarrow> string \<Rightarrow> (nat \<times> rx_item list) list \<Rightarrow> (string \<times> string \<times> nat) option" where
  "scan_patterns delim rev_text [] = None"
| "scan_patterns delim rev_text ((n_groups, pattern) # ps) =
     (case first_candidate delim n_groups rev_text (finditer pattern rev_text) of
        Some g \<Rightarrow> Some (g, [delim], n_groups)
      | None \<Rightarrow> scan_patterns delim rev_text ps)"

fun scan_delims :: "string \<Rightarrow> char list \<Rightarrow> (string \<times> string \<times> nat) option" where
  "scan_delims rev_text [] = None"
| "scan_delims rev_text (delim # ds) =
     (case scan_patterns delim rev_text (patterns delim) of
        Some r \<Rightarrow> Some r
      | None \<Rightarrow> scan_delims rev_text ds)"

text \<open>A value read from the table: a string, or anything else.\<close>

datatype pyobj = Str string | NotStr

text \<open>
  \<^verbatim>\<open>extract_same_delim_group_from_reversed(text, num_groups)\<close>: the group, its delimiter
  and its number of fields, or \<^verbatim>\<open>('', '', 0)\<close>. The body never reads \<open>num_groups\<close>.
\<close>

definition extract_same_delim_group_from_reversed :: "pyobj \<Rightarrow> nat \<Rightarrow> string \<times> string \<times> nat" where
  "extract_same_delim_group_from_reversed text num_groups =
     (case text of
        NotStr \<Rightarrow> ([], [], 0)
      | Str s \<Rightarrow>
          (case scan_delims (rev s) DELIM_LIST of
             Some r \<Rightarrow> r
           | None \<Rightarrow> ([], [], 0)))"

subsection \<open>Dates and the third-party parsers\<close>

text \<open>
  The date of a Python \<^verbatim>\<open>datetime\<close>: year, month, day. The constructor accepts the
  years 1 to 9999 and the days of the calendar, and raises \<^verbatim>\<open>ValueError\<close> otherwise.
\<close>

type_synonym date = "int \<times> int \<times> int"

datatype py_error = ValueError

datatype 'a outcome = Raises | Returns 'a

definition is_leap :: "int \<Rightarrow> bool" where
  "is_leap y = (y mod 4 = 0 \<and> (y mod 100 \<noteq> 0 \<or> y mod 400 = 0))"

definition days_in_month :: "int \<Rightarrow> int \<Rightarrow> int" where
  "days_in_month y m =
     (if m = 2 then (if is_leap y then 29 else 28)
      else if m = 4 \<or> m = 6 \<or> m = 9 \<or> m = 11 then 30 else 31)"

definition valid_date :: "date \<Rightarrow> bool" where
  "valid_date dt = (case dt of (y, m, d) \<Rightarrow>
     1 \<le> y \<and> y \<le> 9999 \<and> 1 \<le> m \<and> m \<le> 12 \<and> 1 \<le> d \<and> d \<le> days_in_month y m)"

text \<open>\<^verbatim>\<open>datetime(year, month, day, hour, minute, second)\<close>, of which the date is kept.\<close>

definition datetime_new :: "int \<times> int \<times> int \<times> int \<times> int \<times> int \<Rightarrow> date option" where
  "datetime_new f = (case f of (y, m, d, hh, mi, ss) \<Rightarrow>
     if valid_date (y, m, d) \<and> 0 \<le> hh \<and> hh \<le> 23 \<and> 0 \<le> mi \<and> mi \<le> 59 \<and> 0 \<le> ss \<and> ss \<le> 59
     then Some (y, m, d) else None)"

text \<open>\<^verbatim>\<open>date.isoformat()\<close>, and \<^verbatim>\<open>strftime('%Y-%m-%d')\<close> for a year of four digits.\<close>

definition isoformat :: "date \<Rightarrow> string" where
  "isoformat dt = (case dt of (y, m, d) \<Rightarrow> fmt0 4 y @ ''-'' @ fmt0 2 m @ ''-'' @ fmt0 2 d)"

text \<open>
  The libraries \<^verbatim>\<open>datefinder\<close>, \<^verbatim>\<open>dateparser\<close>, \<^verbatim>\<open>parsedatetime\<close> and \<^verbatim>\<open>dateutil\<close> are not
  part of the program: they are parameters. Each gives the fields of what it returns, or
  raises. A library hands out \<^verbatim>\<open>datetime\<close> objects, so fields that are no date of the
  calendar stand for a call that raised while building the object.
\<close>

record env =
  find_dates :: "string \<Rightarrow> date list outcome"
  dateparser_parse :: "string \<Rightarrow> date option outcome"
  cal_parse :: "string \<Rightarrow> ((int \<times> int \<times> int \<times> int \<times> int \<times> int) \<times> int) outcome"
  dateutil_parse :: "string \<Rightarrow> date outcome"

subsection \<open>The date standardizer\<close>

text \<open>\<^verbatim>\<open>DELIMS\<close>, the class \<^verbatim>\<open>[-_/\\\.]\<close>.\<close>

definition DELIMS :: rx_item where
  "DELIMS = OneOf [CHR ''-'', CHR ''_'', CHR ''/'', CHR 0x5C, CHR ''.'']"

text \<open>\<^verbatim>\<open>int\<close> outside a \<^verbatim>\<open>try\<close>: a failure leaves the function.\<close>

definition int_or_raise :: "string \<Rightarrow> py_error + int" where
  "int_or_raise s = (case py_int s of None \<Rightarrow> Inl ValueError | Some i \<Rightarrow> Inr i)"

definition bind_err :: "py_error + 'a \<Rightarrow> ('a \<Rightarrow> py_error + 'b) \<Rightarrow> py_error + 'b" where
  "bind_err r f = (case r of Inl e \<Rightarrow> Inl e | Inr v \<Rightarrow> f v)"

text \<open>The year of two digits (any year below 100) after the loop over the centuries.\<close>

definition expand_year :: "int \<Rightarrow> int" where
  "expand_year yy = (if yy < 100 then fst (century_loop yy) else yy)"

definition standardize_date :: "env \<Rightarrow> string \<Rightarrow> py_error + string" where
  "standardize_date e date_str0 =
     (if date_str0 = [] then Inr []
      else
        (let date_str = strip date_str0 in
         case fullmatch [Digits 4 4] date_str of
           Some _ \<Rightarrow>
             bind_err (int_or_raise date_str) (\<lambda>year.
               if plausible_year year then Inr (fmt0 4 year @ ''-01-01'') else Inr [])
         | None \<Rightarrow>
         (case fullmatch [Digits 1 2, DELIMS, Digits 2 4] date_str of
            Some gs \<Rightarrow>
              bind_err (int_or_raise (gs ! 0)) (\<lambda>mm.
              bind_err (int_or_raise (gs ! 1)) (\<lambda>yy0.
                let yy = expand_year yy0 in
                if 1 \<le> mm \<and> mm \<le> 12 \<and> plausible_year yy
                then Inr (fmt0 4 yy @ ''-'' @ fmt0 2 mm @ ''-01'') else Inr []))
          | None \<Rightarrow>
         (case fullmatch [Digits 4 4, DELIMS, Digits 1 2] date_str of
            Some gs \<Rightarrow>
              bind_err (int_or_raise (gs ! 0)) (\<lambda>yy0.
              bind_err (int_or_raise (gs ! 1)) (\<lambda>mm.
                let yy = expand_year yy0 in
                if 1 \<le> mm \<and> mm \<le> 12 \<and> plausible_year yy
                then Inr (fmt0 4 yy @ ''-'' @ fmt0 2 mm @ ''-01'') else Inr []))
          | None \<Rightarrow>
         (case fullmatch [Digits 1 2, DELIMS, Digits 1 2, DELIMS, Digits 2 4] date_str of
            Some gs \<Rightarrow>
              bind_err (int_or_raise (gs ! 0)) (\<lambda>mm.
              bind_err (int_or_raise (gs ! 1)) (\<lambda>dd.
              bind_err (int_or_raise (gs ! 2)) (\<lambda>yy0.
                let yy = expand_year yy0 in
                if 1 \<le> mm \<and> mm \<le> 12 \<and> 1 \<le> dd \<and> dd \<le> 31 \<and> plausible_year yy
                then Inr (fmt0 4 yy @ ''-'' @ fmt0 2 mm @ ''-'' @ fmt0 2 dd)
                else if 1 \<le> dd \<and> dd \<le> 12 \<and> 1 \<le> mm \<and> mm \<le> 31 \<and> plausible_year yy
                then Inr (fmt0 4 yy @ ''-'' @ fmt0 2 dd @ ''-'' @ fmt0 2 mm)
                else Inr [])))
          | None \<Rightarrow>
         (if \<not> search [Digits 4 4] date_str \<and> \<not> search [Digits 2 2] date_str then Inr []
          else
            (case dateutil_parse e date_str of
               Raises \<Rightarrow> Inr []
             | Returns dt \<Rightarrow>
                 if valid_date dt
                 then (if plausible_year (fst dt) then Inr (isoformat dt) else Inr [])
                 else Inr [])))))))"

subsection \<open>The four evaluators\<close>

text \<open>The loop of \<^verbatim>\<open>extract_date_datefinder\<close> over the dates found.\<close>

fun first_iso :: "env \<Rightarrow> date list \<Rightarrow> string" where
  "first_iso e [] = []"
| "first_iso e (m # ms) =
     (case standardize_date e (isoformat m) of
        Inl err \<Rightarrow> []
      | Inr iso_s \<Rightarrow> if iso_s \<noteq> [] then iso_s else first_iso e ms)"

definition extract_date_datefinder :: "env \<Rightarrow> string \<Rightarrow> string" where
  "extract_date_datefinder e text =
     (case find_dates e text of
        Raises \<Rightarrow> []
      | Returns matches \<Rightarrow> if list_all valid_date matches then first_iso e matches else [])"

definition extract_date_dateparser :: "env \<Rightarrow> string \<Rightarrow> string" where
  "extract_date_dateparser e text =
     (case dateparser_parse e text of
        Raises \<Rightarrow> []
      | Returns None \<Rightarrow> []
      | Returns (Some dt) \<Rightarrow>
          if valid_date dt
          then (case standardize_date e (isoformat dt) of Inl err \<Rightarrow> [] | Inr r \<Rightarrow> r)
          else [])"

definition extract_date_parsedatetime :: "env \<Rightarrow> string \<Rightarrow> string" where
  "extract_date_parsedatetime e text =
     (case cal_parse e text of
        Raises \<Rightarrow> []
      | Returns (time_struct, parse_status) \<Rightarrow>
          if parse_status > 0
          then (case datetime_new time_struct of
                  None \<Rightarrow> []
                | Some dt \<Rightarrow>
                    (case standardize_date e (isoformat dt) of Inl err \<Rightarrow> [] | Inr r \<Rightarrow> r))
          else [])"

text \<open>
  \<^verbatim>\<open>extract_date_regex_datetime\<close>. The body of its inner loop returns a value, which ends
  the function, or nothing, which goes on to the next match; an exception goes on as well.
\<close>

definition regex_ymd :: "env \<Rightarrow> string \<Rightarrow> string \<Rightarrow> string \<Rightarrow> bool \<Rightarrow> string option" where
  "regex_ymd e gy gm gd two_digits =
     (case (py_int gy, py_int gm, py_int gd) of
        (Some year0, Some month, Some day) \<Rightarrow>
          (let year = (if two_digits then fst (century_loop year0) else year0)
           in if 1 \<le> month \<and> month \<le> 12 \<and> 1 \<le> day \<and> day \<le> 31 \<and> plausible_year year
              then (case datetime_new (year, month, day, 0, 0, 0) of
                      None \<Rightarrow> None
                    | Some dt \<Rightarrow>
                        (case standardize_date e (isoformat dt) of
                           Inl err \<Rightarrow> None
                         | Inr r \<Rightarrow> Some r))
              else None)
      | _ \<Rightarrow> None)"

definition regex_match :: "env \<Rightarrow> string list \<Rightarrow> string option" where
  "regex_match e groups =
     (case groups of
        [g0, g1, g2] \<Rightarrow>
          if length g0 = 4 then regex_ymd e g0 g1 g2 False
          else if length g2 = 4 then regex_ymd e g2 g0 g1 False
          else if length g2 = 2 then regex_ymd e g2 g0 g1 True
          else None
      | [g1, g2] \<Rightarrow>
          (case two_fields g1 g2 of
             Some (yy, mm) \<Rightarrow> Some (fmt0 4 yy @ ''-'' @ fmt0 2 mm @ ''-01'')
           | None \<Rightarrow> None)
      | [g0] \<Rightarrow>
          (case py_int g0 of
             Some yy \<Rightarrow> if plausible_year yy then Some (fmt0 4 yy @ ''-01-01'') else None
           | None \<Rightarrow> None)
      | _ \<Rightarrow> None)"

definition regex_patterns :: "rx_item list list" where
  "regex_patterns =
     [[Digits 4 4, DELIMS, Digits 1 2, DELIMS, Digits 1 2],
      [Digits 1 2, DELIMS, Digits 1 2, DELIMS, Digits 2 4],
      [Digits 1 2, DELIMS, Digits 2 4],
      [Digits 2 4, DELIMS, Digits 1 2],
      [Digits 4 4]]"

fun regex_matches :: "env \<Rightarrow> rx_match list \<Rightarrow> string option" where
  "regex_matches e [] = None"
| "regex_matches e (m # ms) =
     (case regex_match e (snd (snd m)) of
        Some r \<Rightarrow> Some r
      | None \<Rightarrow> regex_matches e ms)"

fun regex_scan :: "env \<Rightarrow> string \<Rightarrow> rx_item list list \<Rightarrow> string" where
  "regex_scan e text [] = []"
| "regex_scan e text (pat # pats) =
     (case regex_matches e (finditer pat text) of
        Some r \<Rightarrow> r
      | None \<Rightarrow> regex_scan e text pats)"

definition extract_date_regex_datetime :: "env \<Rightarrow> string \<Rightarrow> string" where
  "extract_date_regex_datetime e text = regex_scan e text regex_patterns"

subsection \<open>The consensus\<close>

text \<open>
  \<^verbatim>\<open>Counter\<close> keeps its keys in the order of their first insertion; \<^verbatim>\<open>most_common(1)\<close>
  is the first item whose count is the greatest.
\<close>

fun counter_add :: "string \<Rightarrow> (string \<times> nat) list \<Rightarrow> (string \<times> nat) list" where
  "counter_add x [] = [(x, 1)]"
| "counter_add x ((k, n) # r) = (if k = x then (k, Suc n) # r else (k, n) # counter_add x r)"

definition Counter :: "string list \<Rightarrow> (string \<times> nat) list" where
  "Counter xs = foldl (\<lambda>c x. counter_add x c) [] xs"

fun max_item :: "string \<times> nat \<Rightarrow> (string \<times> nat) list \<Rightarrow> string \<times> nat" where
  "max_item best [] = best"
| "max_item best (i # r) = max_item (if snd best < snd i then i else best) r"

definition ISO_PATTERN :: "rx_item list" where
  "ISO_PATTERN = [Digits 4 4, OneOf [CHR ''-''], Digits 2 2, OneOf [CHR ''-''], Digits 2 2]"

definition iso_filter :: "string list \<Rightarrow> string list" where
  "iso_filter dates =
     map strip (filter (\<lambda>d. d \<noteq> [] \<and> fullmatch ISO_PATTERN (strip d) \<noteq> None) dates)"

definition consensus_date :: "string list \<Rightarrow> bool \<Rightarrow> string" where
  "consensus_date dates two_group =
     (case Counter (iso_filter dates) of
        [] \<Rightarrow> []
      | i # r \<Rightarrow>
          (let most_common = fst (max_item i r) in
           if two_group
           then (case split_str (CHR ''-'') most_common of
                   [p0, p1, p2] \<Rightarrow> p0 @ ''-'' @ p1 @ ''-01''
                 | _ \<Rightarrow> most_common)
           else most_common))"

subsection \<open>One row of the table\<close>

record row =
  evaluated :: string
  datefinder_date :: string
  dateparser_date :: string
  parsedatetime_date :: string
  regex_date :: string
  consensus :: string

definition splitcount :: "string \<Rightarrow> string \<Rightarrow> nat" where
  "splitcount grp delim =
     (case delim of [] \<Rightarrow> 0 | d # ds \<Rightarrow> if grp \<noteq> [] then length (split_str d grp) else 0)"

text \<open>The choice of the evaluated element, and whether it came from two fields.\<close>

definition final_eval :: "pyobj \<Rightarrow> string \<times> bool" where
  "final_eval text =
     (case extract_same_delim_group_from_reversed text 3 of (group3, delim3, n3) \<Rightarrow>
      case extract_same_delim_group_from_reversed text 2 of (group2, delim2, n2) \<Rightarrow>
        (let splitcount3 = splitcount group3 delim3;
             splitcount2 = splitcount group2 delim2;
             real3 = (group3 \<noteq> [] \<and> delim3 \<noteq> [] \<and> splitcount3 = 3);
             real2 = (group2 \<noteq> [] \<and> delim2 \<noteq> [] \<and> splitcount2 = 2)
         in if real3 then (group3, real2 \<and> \<not> real3)
            else if real2
            then (let parts = split_str (hd delim2) group2
                  in (parts ! 0 @ delim2 @ ''01'' @ delim2 @ parts ! 1, real2 \<and> \<not> real3))
            else ([], real2 \<and> \<not> real3)))"

definition process_row :: "env \<Rightarrow> pyobj \<Rightarrow> py_error + row" where
  "process_row e text =
     (case final_eval text of (ev, is_two_group) \<Rightarrow>
        (let d1 = extract_date_datefinder e ev;
             d2 = extract_date_dateparser e ev;
             d3 = extract_date_parsedatetime e ev;
             d4 = extract_date_regex_datetime e ev
         in bind_err (standardize_date e d1) (\<lambda>s1.
            bind_err (standardize_date e d2) (\<lambda>s2.
            bind_err (standardize_date e d3) (\<lambda>s3.
            bind_err (standardize_date e d4) (\<lambda>s4.
              Inr \<lparr>evaluated = ev, datefinder_date = s1, dateparser_date = s2,
                   parsedatetime_date = s3, regex_date = s4,
                   consensus = consensus_date [s1, s2, s3, s4] is_two_group\<rparr>))))))"

section \<open>Properties\<close>

subsection \<open>The locator and its field-count argument\<close>

text \<open>
  Claim C10. The locator gives the same group, delimiter and field count whether it is
  asked for three fields or for two: its body never reads the argument.
\<close>

theorem locator_ignores_num_groups:
  "extract_same_delim_group_from_reversed text 3 = extract_same_delim_group_from_reversed text 2"
  by (simp add: extract_same_delim_group_from_reversed_def)

theorem locator_ignores_num_groups_witness:
  "extract_same_delim_group_from_reversed (Str ''Analysis_Contracts-11-05.pdf'') 3
     = (''11-05'', ''-'', 2)"
proof -
  have two: "extract_same_delim_group_from_reversed (Str ''Analysis_Contracts-11-05.pdf'') 2
      = (''11-05'', ''-'', 2)"
    by code_simp
  show ?thesis
    using locator_ignores_num_groups [of "Str ''Analysis_Contracts-11-05.pdf''"] two
    by (simp only:)
qed

text \<open>
  Claim C1. The text \<^verbatim>\<open>03-2021 01_02_2020\<close> holds the group \<^verbatim>\<open>01_02_2020\<close> of three
  fields, which passes every test of the locator under the underscore. The locator tries
  the hyphen first, with its patterns of two fields, and returns \<^verbatim>\<open>03-2021\<close>; the evaluated
  element is the expansion \<^verbatim>\<open>03-01-2021\<close> of that group of two fields.
\<close>

theorem two_field_group_beats_three_field_group:
  "scan_patterns (CHR ''_'') (rev ''03-2021 01_02_2020'') (patterns (CHR ''_''))
      = Some (''01_02_2020'', ''_'', 3)
   \<and> extract_same_delim_group_from_reversed (Str ''03-2021 01_02_2020'') 3 = (''03-2021'', ''-'', 2)
   \<and> final_eval (Str ''03-2021 01_02_2020'') = (''03-01-2021'', True)"
  by code_simp

theorem two_field_group_beats_three_field_group_witness:
  "fst (final_eval (Str ''03-2021 01_02_2020'')) = ''03-01-2021''"
  using two_field_group_beats_three_field_group by simp

end
